theory Spec2Isabelle
  imports Complex_Main
begin

section \<open>Results of calls that may panic\<close>

text \<open>
  Go code either returns or panics. A call is modelled as a value of \<open>'a outcome\<close>:
  \<open>Panic p\<close> records which panic was raised, \<open>Returns v\<close> carries the returned
  values (and, for methods with a pointer receiver, the receiver after the call).
\<close>

datatype panic =
    PanicName          \<comment> \<open>the name is empty, \<open>identity\<close> or \<open>*\<close>\<close>
  | PanicNilWriterFunc \<comment> \<open>\<open>AddAlgorithm\<close> was given a nil \<open>WriterFunc\<close>\<close>
  | PanicWriterFunc string \<comment> \<open>the pool's \<open>New\<close> got an error from the \<open>WriterFunc\<close>\<close>
  | PanicNilWriter     \<comment> \<open>a method was called on a nil interface value\<close>

datatype 'a outcome = Panic panic | Returns 'a

section \<open>The codec registry (package compress, algorithm file)\<close>

text \<open>
  A \<open>WriterFunc\<close> is only ever applied to a fresh \<open>bytes.Buffer\<close>, inside the
  \<open>New\<close> closure of the algorithm's pool. It is represented by what that application
  yields: \<open>Inl err\<close> or \<open>Inr w\<close>. A nil \<open>WriterFunc\<close> is \<open>None\<close> in an
  \<open>option\<close>. The pool of an algorithm is represented by the \<open>WriterFunc\<close> its
  \<open>New\<close> closure captured.
\<close>

type_synonym 'w WriterFunc = "string + 'w"

record 'w algorithm =
  name :: string
  pool :: "'w WriterFunc"

text \<open>
  The struct \<open>Compress\<close> itself is declared in a file that is not among the sources.
  Its field \<open>algorithms\<close> is used as a slice of algorithms by every method below; its
  method \<open>canCompressed\<close> (the content type filter) is taken as a parameter of the
  instance.
\<close>

record 'w Compress =
  algorithms :: "'w algorithm list"
  canCompressed :: "string \<Rightarrow> bool"

text \<open>
  \<open>sliceutil.Count\<close> and \<open>sliceutil.Delete\<close> come from a library outside the
  repository: \<open>Count\<close> is the number of elements that satisfy the predicate,
  \<open>Delete\<close> moves the elements that do not satisfy it to the front, in their order,
  and returns how many they are; the caller then cuts the slice to that size.
\<close>

definition Count :: "'a list \<Rightarrow> ('a \<Rightarrow> bool) \<Rightarrow> nat" where
  "Count xs eq = length (filter eq xs)"

definition Delete :: "'a list \<Rightarrow> ('a \<Rightarrow> bool) \<Rightarrow> 'a list \<times> nat" where
  "Delete xs eq =
     (let kept = filter (\<lambda>x. \<not> eq x) xs
      in (kept @ filter eq xs, length kept))"

definition AddAlgorithm ::
  "'w Compress \<Rightarrow> string \<Rightarrow> 'w WriterFunc option \<Rightarrow> (bool \<times> 'w Compress) outcome" where
  "AddAlgorithm c n wfn =
     (if n = '''' \<or> n = ''identity'' \<or> n = ''*'' then Panic PanicName
      else case wfn of
        None \<Rightarrow> Panic PanicNilWriterFunc
      | Some w \<Rightarrow>
          if Count (algorithms c) (\<lambda>a. name a = n) > 0 then Returns (False, c)
          else Returns (True,
                 c\<lparr>algorithms := algorithms c @ [\<lparr>name = n, pool = w\<rparr>]\<rparr>))"

definition SetAlgorithm ::
  "'w Compress \<Rightarrow> string \<Rightarrow> 'w WriterFunc option \<Rightarrow> 'w Compress outcome" where
  "SetAlgorithm c n wfn =
     (if n = '''' \<or> n = ''identity'' \<or> n = ''*'' then Panic PanicName
      else case wfn of
        None \<Rightarrow>
          (case Delete (algorithms c) (\<lambda>a. name a = n) of
             (moved, sz) \<Rightarrow> Returns (c\<lparr>algorithms := take sz moved\<rparr>))
      | Some w \<Rightarrow>
          Returns (c\<lparr>algorithms := algorithms c @ [\<lparr>name = n, pool = w\<rparr>]\<rparr>))"

section \<open>Negotiation\<close>

text \<open>
  \<open>qheader.AcceptEncoding\<close> is a library outside the repository. It turns the
  \<open>Accept-Encoding\<close> header into a slice of entries; \<open>findAlgorithm\<close> reads of each
  entry the value, the weight \<open>Q\<close> (only compared with zero) and the parse error.
  The negotiation is modelled from that slice on.
\<close>

record Header =
  Value :: string
  Q :: rat
  Err :: "string option"

text \<open>\<open>a.pool.Get().(Writer)\<close>: the pool hands out a writer made by its \<open>New\<close>,
  which panics when the \<open>WriterFunc\<close> fails.\<close>

definition poolGet :: "'w algorithm \<Rightarrow> 'w outcome" where
  "poolGet a = (case pool a of Inl e \<Rightarrow> Panic (PanicWriterFunc e) | Inr w \<Rightarrow> Returns w)"

type_synonym 'w found = "(string \<times> 'w option \<times> bool) outcome"

definition returnAlgorithm :: "'w algorithm \<Rightarrow> 'w found" where
  "returnAlgorithm a =
     (case poolGet a of
        Panic p \<Rightarrow> Panic p
      | Returns w \<Rightarrow> Returns (name a, Some w, False))"

text \<open>The two nested loops of the \<open>*\<close> branch; \<open>None\<close> means that the loop ran to
  its end without returning.\<close>

fun anyItems :: "'w algorithm \<Rightarrow> Header list \<Rightarrow> 'w found option" where
  "anyItems a [] = None"
| "anyItems a (item # items) =
     (if Value item \<noteq> name a then Some (returnAlgorithm a) else anyItems a items)"

fun anyAlgorithms :: "'w algorithm list \<Rightarrow> Header list \<Rightarrow> 'w found option" where
  "anyAlgorithms [] accepts = None"
| "anyAlgorithms (a # as) accepts =
     (case anyItems a accepts of
        Some r \<Rightarrow> Some r
      | None \<Rightarrow> anyAlgorithms as accepts)"

text \<open>The last loop of the body: the first algorithm with the entry's name.\<close>

fun namedAlgorithm :: "'w algorithm list \<Rightarrow> string \<Rightarrow> 'w found option" where
  "namedAlgorithm [] v = None"
| "namedAlgorithm (a # as) v =
     (if name a = v then Some (returnAlgorithm a) else namedAlgorithm as v)"

text \<open>One pass through the body of the outer loop, for the entry \<open>accept\<close>;
  \<open>None\<close> means that the loop goes on with the next entry.\<close>

definition acceptBody :: "'w Compress \<Rightarrow> Header list \<Rightarrow> Header \<Rightarrow> 'w found option" where
  "acceptBody c accepts accept =
     (if Err accept \<noteq> None then None
      else if Value accept = ''*'' then
        (if Q accept = 0 then Some (Returns ('''', None, True))
         else anyAlgorithms (algorithms c) accepts)
      else if Value accept = ''identity'' then Some (Returns ('''', None, False))
      else namedAlgorithm (algorithms c) (Value accept))"

fun acceptLoop :: "'w Compress \<Rightarrow> Header list \<Rightarrow> Header list \<Rightarrow> 'w found" where
  "acceptLoop c accepts [] = Returns ('''', None, False)"
| "acceptLoop c accepts (accept # rest) =
     (case acceptBody c accepts accept of
        Some r \<Rightarrow> r
      | None \<Rightarrow> acceptLoop c accepts rest)"

definition findAlgorithm :: "'w Compress \<Rightarrow> Header list \<Rightarrow> 'w found" where
  "findAlgorithm c accepts = acceptLoop c accepts accepts"

section \<open>The response wrapper (package compress, response file)\<close>

text \<open>
  \<open>http.Header\<close> is a map from canonical header names to the list of their values.
  The wrapper only uses names that are already canonical, so the canonicalisation of
  \<open>Get\<close>, \<open>Set\<close>, \<open>Add\<close> and \<open>Del\<close> is the identity on them.
\<close>

type_synonym bytes = string
type_synonym http_Header = "string \<rightharpoonup> string list"

definition headerGet :: "http_Header \<Rightarrow> string \<Rightarrow> string" where
  "headerGet h k = (case h k of None \<Rightarrow> '''' | Some [] \<Rightarrow> '''' | Some (v # vs) \<Rightarrow> v)"

definition headerSet :: "http_Header \<Rightarrow> string \<Rightarrow> string \<Rightarrow> http_Header" where
  "headerSet h k v = h(k \<mapsto> [v])"

definition headerAdd :: "http_Header \<Rightarrow> string \<Rightarrow> string \<Rightarrow> http_Header" where
  "headerAdd h k v = h(k \<mapsto> (case h k of None \<Rightarrow> [] | Some vs \<Rightarrow> vs) @ [v])"

definition headerDel :: "http_Header \<Rightarrow> string \<Rightarrow> http_Header" where
  "headerDel h k = h(k := None)"

text \<open>
  The wrapped \<open>http.ResponseWriter\<close> is seen through what it is asked to do: the header
  map it hands out, the status codes passed to its \<open>WriteHeader\<close> and the bytes passed
  to its \<open>Write\<close>, each in call order.
\<close>

record ResponseWriter =
  header :: http_Header
  statuses :: "int list"
  body :: bytes

text \<open>
  \<open>resp.writer\<close> is nil, the wrapped response writer or the compress writer. The
  writer \<open>resp.f\<close> and \<open>resp.compressWriter\<close> are the same object once the latter is
  set; what is done to that object is kept once, in the fields \<open>resets\<close> (calls of
  \<open>Reset\<close> with the wrapped response writer), \<open>compressed\<close> (the bytes passed to its
  \<open>Write\<close>) and \<open>closes\<close> (calls of \<open>Close\<close>).
\<close>

datatype sink = ToResponseWriter | ToCompressWriter

record 'w response =
  writer :: "sink option"
  compressWriter :: "'w option"
  responseWriter :: ResponseWriter
  wroteHeader :: bool
  f :: "'w option"
  encodingName :: string
  resets :: nat
  compressed :: bytes
  closes :: nat

definition newResponse :: "ResponseWriter \<Rightarrow> 'w option \<Rightarrow> string \<Rightarrow> 'w response" where
  "newResponse rw fw n =
     \<lparr>writer = None, compressWriter = None, responseWriter = rw, wroteHeader = False,
      f = fw, encodingName = n, resets = 0, compressed = [], closes = 0\<rparr>"

definition bodyAllowedForStatus :: "int \<Rightarrow> bool" where
  "bodyAllowedForStatus status =
     (if status \<ge> 100 \<and> status \<le> 199 then False
      else if status = 204 then False
      else if status = 304 then False
      else True)"

text \<open>The deferred function of \<open>writeHeader\<close>, run on both ways out of it.\<close>

definition writeHeaderDeferred :: "int \<Rightarrow> 'w response \<Rightarrow> 'w response" where
  "writeHeaderDeferred status resp =
     resp\<lparr>responseWriter :=
            (responseWriter resp)\<lparr>statuses := statuses (responseWriter resp) @ [status]\<rparr>,
          wroteHeader := True\<rparr>"

text \<open>
  \<open>http.DetectContentType\<close> belongs to the standard library and is a parameter,
  \<open>detect\<close>. The instance \<open>resp.c\<close> is passed as \<open>cmp\<close>.
\<close>

definition writeHeader ::
  "'w Compress \<Rightarrow> (bytes \<Rightarrow> string) \<Rightarrow> 'w response \<Rightarrow> int \<Rightarrow> bytes \<Rightarrow> 'w response" where
  "writeHeader cmp detect resp status bs =
     (let h1 = headerDel (header (responseWriter resp)) ''Content-Length'';
          ct0 = headerGet h1 ''Content-Type'';
          ct = (if ct0 = '''' then detect bs else ct0);
          h2 = (if ct0 = '''' then headerSet h1 ''Content-Type'' ct else h1)
      in if f resp = None \<or> \<not> bodyAllowedForStatus status \<or> \<not> canCompressed cmp ct
         then writeHeaderDeferred status
                (resp\<lparr>responseWriter := (responseWriter resp)\<lparr>header := h2\<rparr>,
                      writer := Some ToResponseWriter\<rparr>)
         else writeHeaderDeferred status
                (resp\<lparr>responseWriter :=
                        (responseWriter resp)
                          \<lparr>header := headerAdd (headerSet h2 ''Content-Encoding'' (encodingName resp))
                                       ''Vary'' ''Content-Encoding''\<rparr>,
                      resets := resets resp + 1,
                      compressWriter := f resp,
                      writer := Some ToCompressWriter\<rparr>))"

definition WriteHeader ::
  "'w Compress \<Rightarrow> (bytes \<Rightarrow> string) \<Rightarrow> 'w response \<Rightarrow> int \<Rightarrow> 'w response" where
  "WriteHeader cmp detect resp code = writeHeader cmp detect resp code []"

definition Write ::
  "'w Compress \<Rightarrow> (bytes \<Rightarrow> string) \<Rightarrow> 'w response \<Rightarrow> bytes \<Rightarrow> 'w response outcome" where
  "Write cmp detect resp bs =
     (let resp1 = (if \<not> wroteHeader resp then writeHeader cmp detect resp 200 bs else resp)
      in case writer resp1 of
           None \<Rightarrow> Panic PanicNilWriter
         | Some ToResponseWriter \<Rightarrow>
             Returns (resp1\<lparr>responseWriter :=
                        (responseWriter resp1)\<lparr>body := body (responseWriter resp1) @ bs\<rparr>\<rparr>)
         | Some ToCompressWriter \<Rightarrow>
             Returns (resp1\<lparr>compressed := compressed resp1 @ bs\<rparr>))"

definition close :: "'w response \<Rightarrow> 'w response" where
  "close resp =
     (if compressWriter resp \<noteq> None then resp\<lparr>closes := closes resp + 1\<rparr> else resp)"


section \<open>The older handler (package handlers, compress.go)\<close>

text \<open>
  \<open>strings.Split(s, ",")\<close> and \<open>strings.ToLower\<close>. The lower-casing is the one of
  ASCII letters; on a header made of ASCII characters it is what \<open>strings.ToLower\<close>
  computes.
\<close>

fun Split :: "string \<Rightarrow> string list" where
  "Split [] = [[]]"
| "Split (x # xs) =
     (if x = CHR '','' then [] # Split xs
      else (case Split xs of
              [] \<Rightarrow> [[x]]
            | y # ys \<Rightarrow> (x # y) # ys))"

definition lowerChar :: "char \<Rightarrow> char" where
  "lowerChar ch =
     (let n = (of_char ch :: nat)
      in if 65 \<le> n \<and> n \<le> 90 then char_of (n + 32) else ch)"

definition ToLower :: "string \<Rightarrow> string" where
  "ToLower s = map lowerChar s"

datatype gzw = GzipWriter | FlateWriter

text \<open>
  The loop over the encodings. It ends by \<open>break\<close> or at the end of the slice with the
  writer and the last value assigned to \<open>encoding\<close> (\<open>Broke\<close>), or leaves the function
  after serving with the plain writer when \<open>flate.NewWriter\<close> fails (\<open>flateOk\<close> is
  false).
\<close>

datatype scanned = ServedPlain | Broke "gzw option" string

fun scanEncodings :: "bool \<Rightarrow> string list \<Rightarrow> gzw option \<Rightarrow> string \<Rightarrow> scanned" where
  "scanEncodings flateOk [] w encoding = Broke w encoding"
| "scanEncodings flateOk (e # es) w encoding =
     (let encoding1 = ToLower e
      in if encoding1 = ''gzip'' then Broke (Some GzipWriter) encoding1
         else if encoding1 = ''deflate'' then
           (if flateOk then Broke (Some FlateWriter) encoding1 else ServedPlain)
         else scanEncodings flateOk es w encoding1)"

text \<open>
  What \<open>ServeHTTP\<close> does with the inner handler: it calls it with the writer it was
  given (\<open>Plain\<close>), or with the compressing writer and closes the compressor afterwards
  (\<open>Wrapped\<close>), or it panics before the inner handler is called, at the \<open>defer\<close> of
  \<open>Close\<close> on a nil interface value (\<open>Panicked\<close>). Each carries the header map of the
  writer at that point.
\<close>

datatype served =
    Plain http_Header
  | Wrapped gzw string http_Header
  | Panicked panic http_Header

definition ServeHTTP :: "bool \<Rightarrow> bool \<Rightarrow> http_Header \<Rightarrow> string \<Rightarrow> served" where
  "ServeHTTP hijacker flateOk h acceptEncoding =
     (if \<not> hijacker then Plain h
      else case scanEncodings flateOk (Split acceptEncoding) None '''' of
        ServedPlain \<Rightarrow> Plain h
      | Broke w encoding \<Rightarrow>
          (let h1 = headerAdd (headerSet h ''Content-Encoding'' encoding)
                      ''Vary'' ''Accept-Encoding''
           in case w of
                None \<Rightarrow> Panicked PanicNilWriter h1
              | Some z \<Rightarrow> Wrapped z encoding h1))"


section \<open>Concrete values for the examples\<close>

text \<open>
  An error-free header entry, a codec whose writer is a number, an instance whose
  content type filter accepts every type (the pattern \<open>*\<close> of the benchmarks), and a
  wrapped response writer that has not been written to.
\<close>

abbreviation entry :: "string \<Rightarrow> rat \<Rightarrow> Header" where
  "entry v q \<equiv> \<lparr>Value = v, Q = q, Err = None\<rparr>"

abbreviation codec :: "string \<Rightarrow> nat \<Rightarrow> nat algorithm" where
  "codec n w \<equiv> \<lparr>name = n, pool = Inr w\<rparr>"

abbreviation registry :: "nat algorithm list \<Rightarrow> nat Compress" where
  "registry as \<equiv> \<lparr>algorithms = as, canCompressed = (\<lambda>ct. True)\<rparr>"

abbreviation fresh :: "http_Header \<Rightarrow> ResponseWriter" where
  "fresh h \<equiv> \<lparr>header = h, statuses = [], body = []\<rparr>"


section \<open>Helper lemmas\<close>

lemma acceptLoop_skip:
  "\<forall>p\<in>set pre. acceptBody c accepts p = None \<Longrightarrow>
   acceptLoop c accepts (pre @ rest) = acceptLoop c accepts rest"
  by (induction pre) simp_all

lemma namedAlgorithm_None: "namedAlgorithm as v = None \<longleftrightarrow> v \<notin> name ` set as"
  by (induction as) auto

lemma anyItems_None:
  "anyItems a items = None \<longleftrightarrow> (\<forall>i\<in>set items. Value i = name a)"
  by (induction items) auto

lemma anyItems_Some: "anyItems a items = Some r \<Longrightarrow> r = returnAlgorithm a"
  by (induction items) (auto split: if_splits)

text \<open>What the \<open>*\<close> branch computes: as soon as one entry of the header differs from
  the name of the first algorithm, that algorithm is returned.\<close>

lemma anyAlgorithms_first:
  assumes "i \<in> set items" and "Value i \<noteq> name a"
  shows "anyAlgorithms (a # as) items = Some (returnAlgorithm a)"
proof -
  from assms have "anyItems a items \<noteq> None"
    by (auto simp: anyItems_None)
  then obtain r where r: "anyItems a items = Some r"
    by blast
  then have "r = returnAlgorithm a"
    by (rule anyItems_Some)
  with r show ?thesis
    by simp
qed

text \<open>Entries that the loop passes over: a parse error, or a value that is neither
  \<open>*\<close> nor \<open>identity\<close> nor the name of a registered algorithm.\<close>

lemma acceptBody_passes:
  assumes "Err p \<noteq> None \<or>
           (Value p \<noteq> ''*'' \<and> Value p \<noteq> ''identity'' \<and> Value p \<notin> name ` set (algorithms c))"
  shows "acceptBody c accepts p = None"
  using assms by (auto simp: acceptBody_def namedAlgorithm_None)







lemma Split_not_Nil: "Split s \<noteq> []"
  by (induction s) (auto split: list.splits)

lemma scanEncodings_none:
  "''gzip'' \<notin> ToLower ` set es \<Longrightarrow> ''deflate'' \<notin> ToLower ` set es \<Longrightarrow>
   scanEncodings flateOk es w encoding =
     Broke w (if es = [] then encoding else ToLower (last es))"
  by (induction es arbitrary: encoding) (auto simp: Let_def)

lemma ToLower_br: "ToLower ''br'' = ''br''"
  by code_simp

section \<open>Negotiation and the registry\<close>

text \<open>
  Claim C1. The claim: when the header holds a \<open>*\<close> entry of non-zero weight, the
  first registered codec whose name is not an explicit entry of the header is returned,
  and a codec named explicitly, even with weight 0, is never selected through \<open>*\<close>.
  The code returns the codec as soon as one entry of the header differs from its name,
  and the \<open>*\<close> entry itself always does. With \<open>gzip\<close> and \<open>deflate\<close> registered
  in that order and the header \<open>*, gzip;q=0\<close>, \<open>findAlgorithm\<close> returns \<open>gzip\<close>,
  the explicitly rejected codec, where the claim asks for \<open>deflate\<close>.
\<close>

theorem findAlgorithm_any_returns_rejected:
  "findAlgorithm (registry [codec ''gzip'' 1, codec ''deflate'' 2])
     [entry ''*'' 1, entry ''gzip'' 0]
   = Returns (''gzip'', Some 1, False)"
  by (simp add: findAlgorithm_def acceptBody_def returnAlgorithm_def poolGet_def)

text \<open>
  Claim C2. The claim: \<open>SetAlgorithm\<close> with a factory overwrites a registered codec of
  the same name in place and appends only a new name, so that no two entries share a
  name. The code appends in every case: setting \<open>gzip\<close> on a registry that already
  holds \<open>gzip\<close> leaves two entries of that name, the old one first.
\<close>

theorem SetAlgorithm_appends_duplicate:
  "SetAlgorithm (registry [codec ''gzip'' 1]) ''gzip'' (Some (Inr 2))
     = Returns (registry [codec ''gzip'' 1, codec ''gzip'' 2]) \<and>
   \<not> distinct (map name [codec ''gzip'' 1, codec ''gzip'' 2])"
  by (simp add: SetAlgorithm_def)




text \<open>
  Claim C7. When the entry at which the loop stops is \<open>identity\<close> (every entry before
  it is passed over, and it carries no parse error), negotiation returns no codec with
  the "not acceptable" flag unset, whatever is registered and whatever follows.
\<close>

theorem findAlgorithm_identity:
  assumes "\<forall>p\<in>set pre. acceptBody c (pre @ ident # post) p = None"
    and "Err ident = None" and "Value ident = ''identity''"
  shows "findAlgorithm c (pre @ ident # post) = Returns ('''', None, False)"
  using assms by (simp add: findAlgorithm_def acceptLoop_skip acceptBody_def)

text \<open>An instance: \<open>gzip\<close> is registered and listed after \<open>identity\<close>.\<close>

theorem findAlgorithm_identity_witness:
  "findAlgorithm (registry [codec ''gzip'' 1])
     ([entry ''br'' 1] @ entry ''identity'' 1 # [entry ''gzip'' 1, entry ''*'' 0])
   = Returns ('''', None, False)"
  by (rule findAlgorithm_identity) (simp_all add: acceptBody_def)

text \<open>
  Claim C8, as amended. \<open>AddAlgorithm\<close> panics exactly when the name is empty,
  \<open>identity\<close> or \<open>*\<close>, or the factory is nil. It returns false, leaving the registry
  as it was, exactly when none of these holds and the name is already registered. It
  returns true exactly when none of these holds and the name is not registered, and the
  registry is then the old one with the codec appended.
\<close>

theorem AddAlgorithm_results:
  "((\<exists>p. AddAlgorithm c n wfn = Panic p) \<longleftrightarrow>
      n = '''' \<or> n = ''identity'' \<or> n = ''*'' \<or> wfn = None) \<and>
   (\<forall>r. AddAlgorithm c n wfn = Returns (False, r) \<longleftrightarrow>
      r = c \<and> n \<in> name ` set (algorithms c) \<and>
      n \<noteq> '''' \<and> n \<noteq> ''identity'' \<and> n \<noteq> ''*'' \<and> wfn \<noteq> None) \<and>
   (\<forall>r. AddAlgorithm c n wfn = Returns (True, r) \<longleftrightarrow>
      n \<notin> name ` set (algorithms c) \<and>
      n \<noteq> '''' \<and> n \<noteq> ''identity'' \<and> n \<noteq> ''*'' \<and>
      (\<exists>w. wfn = Some w \<and> r = c\<lparr>algorithms := algorithms c @ [\<lparr>name = n, pool = w\<rparr>]\<rparr>))"
  by (auto simp: AddAlgorithm_def Count_def filter_empty_conv split: option.splits)

text \<open>An instance of each of the three results.\<close>

theorem AddAlgorithm_results_witness:
  "AddAlgorithm (registry [codec ''gzip'' 1]) ''gzip'' (Some (Inr 2))
     = Returns (False, registry [codec ''gzip'' 1]) \<and>
   AddAlgorithm (registry [codec ''gzip'' 1]) ''deflate'' (Some (Inr 2))
     = Returns (True, registry [codec ''gzip'' 1, codec ''deflate'' 2]) \<and>
   (\<exists>p. AddAlgorithm (registry [codec ''gzip'' 1]) ''identity'' (Some (Inr 2)) = Panic p)"
  using AddAlgorithm_results [of "registry [codec ''gzip'' 1]" "''gzip''" "Some (Inr 2)"]
    AddAlgorithm_results [of "registry [codec ''gzip'' 1]" "''deflate''" "Some (Inr 2)"]
    AddAlgorithm_results [of "registry [codec ''gzip'' 1]" "''identity''" "Some (Inr 2)"]
  by simp

text \<open>
  Claim C8 as stated fails: for a name that is already registered and a nil factory,
  \<open>AddAlgorithm\<close> panics and does not return false.
\<close>

theorem AddAlgorithm_registered_nil_panics:
  "''gzip'' \<in> name ` set (algorithms (registry [codec ''gzip'' 1])) \<and>
   AddAlgorithm (registry [codec ''gzip'' 1]) ''gzip'' None = Panic PanicNilWriterFunc"
  by (simp add: AddAlgorithm_def)

section \<open>The response wrapper\<close>




text \<open>
  Claim C5. The claim: the decision runs once, at the first header write, and no later
  \<open>WriteHeader\<close> can change the chosen output path. \<open>Write\<close> checks
  \<open>wroteHeader\<close>, \<open>WriteHeader\<close> does not: a second call decides again. With
  \<open>gzip\<close> negotiated and \<open>Content-Type: text/html\<close>, \<open>WriteHeader(200)\<close> routes
  the body to the compress writer and announces \<open>Content-Encoding: gzip\<close>; a following
  \<open>WriteHeader(204)\<close> routes it to the wrapped response writer, and the next chunk is
  written there uncompressed.
\<close>

theorem WriteHeader_twice_redecides:
  "writer (WriteHeader (registry [codec ''gzip'' 1]) detect
      (newResponse (fresh [''Content-Type'' \<mapsto> [''text/html'']]) (Some 1) ''gzip'') 200)
     = Some ToCompressWriter \<and>
   writer (WriteHeader (registry [codec ''gzip'' 1]) detect
      (WriteHeader (registry [codec ''gzip'' 1]) detect
        (newResponse (fresh [''Content-Type'' \<mapsto> [''text/html'']]) (Some 1) ''gzip'') 200) 204)
     = Some ToResponseWriter \<and>
   (\<exists>resp. Write (registry [codec ''gzip'' 1]) detect
      (WriteHeader (registry [codec ''gzip'' 1]) detect
        (WriteHeader (registry [codec ''gzip'' 1]) detect
          (newResponse (fresh [''Content-Type'' \<mapsto> [''text/html'']]) (Some 1) ''gzip'') 200) 204)
      ''body'' = Returns resp \<and>
      body (responseWriter resp) = ''body'' \<and> compressed resp = [] \<and>
      headerGet (header (responseWriter resp)) ''Content-Encoding'' = ''gzip'' \<and>
      statuses (responseWriter resp) = [200, 204])"
  by (simp add: Write_def WriteHeader_def writeHeader_def writeHeaderDeferred_def
      newResponse_def Let_def headerDel_def headerSet_def headerGet_def headerAdd_def
      bodyAllowedForStatus_def)





section \<open>The older handler\<close>

text \<open>
  Claim C10. Over a writer that can be hijacked, a request whose \<open>Accept-Encoding\<close>
  header has no comma-separated entry that reads \<open>gzip\<close> or \<open>deflate\<close> in lower
  case leaves the compressor nil: \<open>ServeHTTP\<close> sets \<open>Content-Encoding\<close> to the last
  entry and adds \<open>Vary\<close>, then panics at the deferred \<open>Close\<close> of the nil writer; the
  response is not served with the plain writer.
\<close>

theorem ServeHTTP_nil_Close_panics:
  assumes "''gzip'' \<notin> ToLower ` set (Split acceptEncoding)"
    and "''deflate'' \<notin> ToLower ` set (Split acceptEncoding)"
  shows "ServeHTTP True flateOk h acceptEncoding =
     Panicked PanicNilWriter
       (headerAdd (headerSet h ''Content-Encoding'' (ToLower (last (Split acceptEncoding))))
          ''Vary'' ''Accept-Encoding'')"
  using assms by (simp add: ServeHTTP_def scanEncodings_none Split_not_Nil)

text \<open>An instance: the header \<open>br\<close>.\<close>

theorem ServeHTTP_nil_Close_panics_witness:
  "ServeHTTP True True Map.empty ''br'' =
     Panicked PanicNilWriter
       [''Content-Encoding'' \<mapsto> [''br''], ''Vary'' \<mapsto> [''Accept-Encoding'']]"
  using ServeHTTP_nil_Close_panics [of "''br''" True Map.empty]
  by (simp add: ToLower_br headerAdd_def headerSet_def)

end
